theory Spec2Isabelle
  imports Complex_Main
begin

text \<open>
  A shallow embedding of the three parts of the backend that decide how code is admitted
  and run: the sliding-window rate limiter of \<open>performance_service.py\<close>, the validator
  and the execution engine of \<open>compiler_service.py\<close>, and the execute endpoint of
  \<open>api/code.py\<close>. State that the Python code mutates is passed in and returned; what the
  operating system and the libraries decide is read from an environment record; an
  exception is a value of a sum type. The definitions come first, the properties after
  them.
\<close>

section \<open>Python values and string operations\<close>

text \<open>
  Python strings are modelled as \<^typ>\<open>string\<close>, one \<^typ>\<open>char\<close> per code point; the
  model therefore covers texts whose code points are below 256. \<open>len\<close> is \<^const>\<open>length\<close>,
  \<open>s[:n]\<close> is \<^const>\<open>take\<close>, \<open>+\<close> is \<open>@\<close>.
\<close>

datatype pyval = PBool bool | PStr string | PInt int | PFloat real | PNone

text \<open>A Python \<open>dict\<close> with string keys, in insertion order; \<^const>\<open>map_of\<close> reads a key.\<close>

type_synonym pydict = "(string \<times> pyval) list"

text \<open>\<open>sub in s\<close> for strings: \<open>sub\<close> occurs in \<open>s\<close> as a contiguous run.\<close>

fun contains :: "string \<Rightarrow> string \<Rightarrow> bool" where
  "contains sub [] = (sub = [])"
| "contains sub (c # cs) = (take (length sub) (c # cs) = sub \<or> contains sub cs)"

text \<open>\<open>str.isspace\<close> on one character, for the code points below 256.\<close>

definition is_space :: "char \<Rightarrow> bool" where
  "is_space c = (let n = (of_char c :: nat) in
     (9 \<le> n \<and> n \<le> 13) \<or> (28 \<le> n \<and> n \<le> 32) \<or> n = 133 \<or> n = 160)"

text \<open>\<open>s.strip()\<close>: leading and trailing whitespace removed.\<close>

definition strip :: "string \<Rightarrow> string" where
  "strip s = rev (dropWhile is_space (rev (dropWhile is_space s)))"

text \<open>\<open>str.lower\<close>, for the code points below 256.\<close>

definition lower_char :: "char \<Rightarrow> char" where
  "lower_char c = (let n = (of_char c :: nat) in
     if (65 \<le> n \<and> n \<le> 90) \<or> (192 \<le> n \<and> n \<le> 222 \<and> n \<noteq> 215)
     then char_of (n + 32) else c)"

definition lower :: "string \<Rightarrow> string" where
  "lower s = map lower_char s"

text \<open>\<open>sep.join(xs)\<close>.\<close>

fun join :: "string \<Rightarrow> string list \<Rightarrow> string" where
  "join sep [] = []"
| "join sep [x] = x"
| "join sep (x # y # ys) = x @ sep @ join sep (y # ys)"

section \<open>Rate limiter (performance_service.py)\<close>

text \<open>
  \<open>RateLimiter.requests\<close> is a \<open>defaultdict(deque)\<close>: a map from the store key to the
  timestamps recorded for it, oldest first. Timestamps are the readings of \<open>time.time()\<close>,
  taken here as real numbers; each operation receives the reading \<open>now\<close> it makes.
\<close>

record RateLimiter =
  requests :: "string \<rightharpoonup> real list"

definition default_limits :: "(string \<times> int) list" where
  "default_limits =
    [(''requests_per_minute'', 60),
     (''requests_per_hour'', 1000),
     (''code_executions_per_minute'', 10),
     (''ai_requests_per_minute'', 20)]"

definition user_limits :: "(string \<times> (string \<times> int) list) list" where
  "user_limits =
    [(''admin'',
        [(''requests_per_minute'', 120),
         (''requests_per_hour'', 5000),
         (''code_executions_per_minute'', 50),
         (''ai_requests_per_minute'', 100)]),
     (''demo'',
        [(''requests_per_minute'', 30),
         (''requests_per_hour'', 500),
         (''code_executions_per_minute'', 5),
         (''ai_requests_per_minute'', 10)])]"

text \<open>
  \<open>limits = self.user_limits.get(user_type, self.default_limits)\<close> and
  \<open>limit = limits.get(limit_type, self.default_limits.get(limit_type, 60))\<close>.
\<close>

definition get_limit :: "string \<Rightarrow> string \<Rightarrow> int" where
  "get_limit user_type limit_type =
    (let limits = (case map_of user_limits user_type of Some l \<Rightarrow> l | None \<Rightarrow> default_limits)
     in case map_of limits limit_type of
          Some v \<Rightarrow> v
        | None \<Rightarrow> (case map_of default_limits limit_type of Some v \<Rightarrow> v | None \<Rightarrow> 60))"

definition window :: "string \<Rightarrow> real" where
  "window limit_type =
    (if contains ''minute'' limit_type then 60
     else if contains ''hour'' limit_type then 3600
     else 60)"

text \<open>The store key \<open>f"{key}:{limit_type}"\<close>.\<close>

definition store_key :: "string \<Rightarrow> string \<Rightarrow> string" where
  "store_key key limit_type = key @ '':'' @ limit_type"

text \<open>
  \<open>self.requests[k]\<close> on the \<open>defaultdict\<close>: a missing key is inserted with an empty
  deque, which is returned.
\<close>

definition requests_getitem :: "RateLimiter \<Rightarrow> string \<Rightarrow> real list \<times> RateLimiter" where
  "requests_getitem s k =
    (case requests s k of
       Some d \<Rightarrow> (d, s)
     | None \<Rightarrow> ([], s\<lparr>requests := (requests s)(k \<mapsto> [])\<rparr>))"

text \<open>
  \<open>while request_times and request_times[0] < cutoff: request_times.popleft()\<close>
\<close>

fun evict :: "real \<Rightarrow> real list \<Rightarrow> real list" where
  "evict cutoff [] = []"
| "evict cutoff (x # xs) = (if x < cutoff then evict cutoff xs else x # xs)"

text \<open>
  The deque is mutated in place, so the evicted record is what the store holds when the
  operation returns, whether or not a timestamp is appended.
\<close>

definition is_allowed ::
  "RateLimiter \<Rightarrow> real \<Rightarrow> string \<Rightarrow> string \<Rightarrow> string \<Rightarrow> bool \<times> RateLimiter" where
  "is_allowed s now key limit_type user_type =
    (let limit = get_limit user_type limit_type;
         w = window limit_type;
         k = store_key key limit_type;
         (d, s1) = requests_getitem s k;
         request_times = evict (now - w) d
     in if int (length request_times) \<ge> limit
        then (False, s1\<lparr>requests := (requests s1)(k \<mapsto> request_times)\<rparr>)
        else (True, s1\<lparr>requests := (requests s1)(k \<mapsto> request_times @ [now])\<rparr>))"

definition get_remaining_requests ::
  "RateLimiter \<Rightarrow> real \<Rightarrow> string \<Rightarrow> string \<Rightarrow> string \<Rightarrow> int \<times> RateLimiter" where
  "get_remaining_requests s now key limit_type user_type =
    (let limit = get_limit user_type limit_type;
         w = window limit_type;
         k = store_key key limit_type;
         (d, s1) = requests_getitem s k;
         request_times = evict (now - w) d
     in (max 0 (limit - int (length request_times)),
         s1\<lparr>requests := (requests s1)(k \<mapsto> request_times)\<rparr>))"

text \<open>The timestamps recorded for a key: the deque, or nothing when the key is unseen.\<close>

definition record_of :: "RateLimiter \<Rightarrow> string \<Rightarrow> string \<Rightarrow> real list" where
  "record_of s key limit_type =
    (case requests s (store_key key limit_type) of Some d \<Rightarrow> d | None \<Rightarrow> [])"

text \<open>
  A caller making one \<open>is_allowed\<close> call at each of the clock readings \<open>ts\<close>, in order,
  for the same key, limit type and tier: the answers and the final state.
\<close>

fun is_allowed_seq ::
  "RateLimiter \<Rightarrow> real list \<Rightarrow> string \<Rightarrow> string \<Rightarrow> string \<Rightarrow> bool list \<times> RateLimiter" where
  "is_allowed_seq s [] key limit_type user_type = ([], s)"
| "is_allowed_seq s (t # ts) key limit_type user_type =
    (let (b, s1) = is_allowed s t key limit_type user_type;
         (bs, s2) = is_allowed_seq s1 ts key limit_type user_type
     in (b # bs, s2))"

section \<open>Validator (compiler_service.py)\<close>

definition dangerous_patterns :: "string list" where
  "dangerous_patterns =
    [''import os'', ''import subprocess'', ''import sys'',
     ''exec('', ''eval('', ''__import__'',
     ''open('', ''file('', ''input('',
     ''raw_input('', ''System.'', ''Runtime.'',
     ''fs.'', ''require(\"fs\")'', ''require(\"child_process\")'',
     ''process.exit'', ''System.exit'']"

text \<open>The \<open>for pattern in dangerous_patterns\<close> loop: the first pattern found, if any.\<close>

fun first_dangerous :: "string list \<Rightarrow> string \<Rightarrow> string option" where
  "first_dangerous [] code_lower = None"
| "first_dangerous (pattern # ps) code_lower =
    (if contains (lower pattern) code_lower then Some pattern
     else first_dangerous ps code_lower)"

definition validate_code :: "string \<Rightarrow> string \<Rightarrow> pydict" where
  "validate_code language code =
    (if strip code = []
     then [(''valid'', PBool False), (''error'', PStr ''Code cannot be empty'')]
     else (case first_dangerous dangerous_patterns (lower code) of
             Some pattern \<Rightarrow>
               [(''valid'', PBool False),
                (''error'', PStr (''Potentially dangerous code detected: '' @ pattern
                                  @ ''. Please remove it for security.''))]
           | None \<Rightarrow> [(''valid'', PBool True), (''error'', PNone)]))"

section \<open>Operating system and library interface\<close>

text \<open>
  A Python exception of class \<open>Exception\<close>, with its \<open>str(e)\<close>;
  \<open>subprocess.TimeoutExpired\<close> is kept apart because the handlers test for it.
\<close>

datatype pyexn = TimeoutExpired string | PyException string

fun exn_str :: "pyexn \<Rightarrow> string" where
  "exn_str (TimeoutExpired m) = m"
| "exn_str (PyException m) = m"

text \<open>
  What the model observes of the machine: the paths that exist on disk and the argument
  vectors of the processes started so far.
\<close>

record world =
  files :: "string set"
  spawned :: "string list list"

text \<open>
  How a started child process ends under \<open>communicate\<close>: it exits with captured
  stdout, stderr and a return code; the timeout expires; or reading its output raises.
  Each carries the paths the child has written by then; what a child deletes or changes
  elsewhere is outside the model.
\<close>

datatype child_outcome =
    Exits string string int "string list"
  | TimesOut "string list"
  | CommunicateFails pyexn "string list"

text \<open>
  The environment answers what the code cannot decide: the clock, the name of a new
  temporary directory or file, whether a file operation or a process start fails, how a
  child process ends (given its argument vector, standard input, working directory and
  timeout), the regular-expression library and the system monitor.
\<close>

record os_env =
  os_name :: string
  time_start :: real
  time_end :: real
  mkdtemp :: "world \<Rightarrow> pyexn + string"
  open_w :: "world \<Rightarrow> string \<Rightarrow> pyexn option"
  write_text :: "world \<Rightarrow> string \<Rightarrow> string \<Rightarrow> pyexn option"
  spawn_error :: "world \<Rightarrow> string list \<Rightarrow> string option \<Rightarrow> pyexn option"
  child :: "world \<Rightarrow> string list \<Rightarrow> string option \<Rightarrow> string option \<Rightarrow> int option
              \<Rightarrow> child_outcome"
  gettempdir :: string
  mkstemp :: "world \<Rightarrow> string \<Rightarrow> string \<Rightarrow> pyexn + string"
  makedirs :: "world \<Rightarrow> string \<Rightarrow> pyexn option"
  uuid4_hex :: string
  re_findall :: "string \<Rightarrow> string \<Rightarrow> string list"
  re_sub :: "string \<Rightarrow> string \<Rightarrow> string \<Rightarrow> string"
  memory_initial :: real
  memory_final :: real
  cpu_initial :: real
  cpu_final :: real

definition add_files :: "string list \<Rightarrow> world \<Rightarrow> world" where
  "add_files ps w = w\<lparr>files := files w \<union> set ps\<rparr>"

text \<open>The path separators of \<open>os.path\<close> and \<open>pathlib\<close> on the running platform.\<close>

definition path_sep :: "os_env \<Rightarrow> string" where
  "path_sep env = (if os_name env = ''nt'' then [CHR 0x5C] else ''/'')"

definition is_sep :: "os_env \<Rightarrow> char \<Rightarrow> bool" where
  "is_sep env c = (c = CHR ''/'' \<or> (os_name env = ''nt'' \<and> c = CHR 0x5C))"

text \<open>
  \<open>Path(d) / name\<close> as a string, for a directory path \<open>d\<close> that does not end in a
  separator (what \<open>mkdtemp\<close> returns) and a plain file name.
\<close>

definition path_join :: "os_env \<Rightarrow> string \<Rightarrow> string \<Rightarrow> string" where
  "path_join env d fname = d @ path_sep env @ fname"

text \<open>\<open>os.path.basename\<close>: what follows the last separator.\<close>

definition basename :: "os_env \<Rightarrow> string \<Rightarrow> string" where
  "basename env p = rev (takeWhile (\<lambda>c. \<not> is_sep env c) (rev p))"

text \<open>
  The last suffix of a file name as \<open>pathlib\<close> sees it: from the last dot, unless that
  dot is the first or the last character of the name.
\<close>

definition suffix_of :: "string \<Rightarrow> string" where
  "suffix_of fname =
    (let ext = rev (takeWhile (\<lambda>c. c \<noteq> CHR ''.'') (rev fname))
     in if CHR ''.'' \<in> set fname \<and> ext \<noteq> [] \<and> length ext + 1 < length fname
        then CHR ''.'' # ext else [])"

text \<open>\<open>Path(p).stem\<close>: the final component without its last suffix.\<close>

definition stem :: "os_env \<Rightarrow> string \<Rightarrow> string" where
  "stem env p =
    (let fname = basename env p in take (length fname - length (suffix_of fname)) fname)"

text \<open>\<open>str(Path(p).with_suffix(suf))\<close>, for a path with a non-empty final component.\<close>

definition with_suffix :: "os_env \<Rightarrow> string \<Rightarrow> string \<Rightarrow> string" where
  "with_suffix env p suf = take (length p - length (suffix_of (basename env p))) p @ suf"

text \<open>\<open>s.replace(old, new)\<close> for a non-empty \<open>old\<close>: every occurrence, left to right.\<close>

function replace :: "string \<Rightarrow> string \<Rightarrow> string \<Rightarrow> string" where
  "replace old new [] = []"
| "replace old new (c # cs) =
    (if old \<noteq> [] \<and> take (length old) (c # cs) = old
     then new @ replace old new (drop (length old) (c # cs))
     else c # replace old new cs)"
  by pat_completeness auto
termination
  by (relation "measure (\<lambda>(old, new, s). length s)") auto

text \<open>\<open>round(x, 3)\<close>: to the nearest multiple of 1/1000, a tie going to the even one.\<close>

definition round3 :: "real \<Rightarrow> real" where
  "round3 x =
    (let y = x * 1000; f = \<lfloor>y\<rfloor>; r = y - of_int f
     in of_int (if r < 1/2 then f else if 1/2 < r then f + 1
                else if even f then f else f + 1) / 1000)"

text \<open>\<open>str(n)\<close> for an integer.\<close>

fun str_nat :: "nat \<Rightarrow> string" where
  "str_nat n = (if n < 10 then [char_of (48 + n)] else str_nat (n div 10) @ [char_of (48 + n mod 10)])"

definition str_int :: "int \<Rightarrow> string" where
  "str_int i = (if i < 0 then CHR ''-'' # str_nat (nat (- i)) else str_nat (nat i))"

section \<open>Execution engine (compiler_service.py)\<close>

text \<open>\<open>CodeExecutor.supported_languages\<close>: language, then extension and command.\<close>

definition supported_languages :: "(string \<times> string \<times> string list) list" where
  "supported_languages =
    [(''python'', ''.py'', [''python'']),
     (''javascript'', ''.js'', [''node'']),
     (''typescript'', ''.ts'', [''npx'', ''ts-node'']),
     (''java'', ''.java'', [''javac'', ''{file}'', ''&&'', ''java'']),
     (''cpp'', ''.cpp'', [''g++'', ''-o'', ''{output}'', ''{file}'', ''&&'', ''{output}'']),
     (''c'', ''.c'', [''gcc'', ''-o'', ''{output}'', ''{file}'', ''&&'', ''{output}'']),
     (''go'', ''.go'', [''go'', ''run'']),
     (''rust'', ''.rs'', [''rustc'', ''{file}'', ''&&'', ''{output}'']),
     (''php'', ''.php'', [''php'']),
     (''ruby'', ''.rb'', [''ruby'']),
     (''shell'', ''.sh'', [''bash'']),
     (''powershell'', ''.ps1'', [''powershell'', ''-File''])]"

definition max_execution_time :: int where
  "max_execution_time = 10"

definition max_output_size :: nat where
  "max_output_size = 1024 * 1024"

text \<open>\<open>d[k]\<close> on a dict with string keys: a missing key raises \<open>KeyError\<close>.\<close>

definition getitem :: "(string \<times> 'v) list \<Rightarrow> string \<Rightarrow> pyexn + 'v" where
  "getitem d k =
    (case map_of d k of
       Some v \<Rightarrow> Inr v
     | None \<Rightarrow> Inl (PyException ([CHR 0x27] @ k @ [CHR 0x27])))"

text \<open>
  \<open>CodeExecutor._prepare_command\<close>. The command of a language is copied; for cpp, c and
  rust the placeholders are replaced inside each argument, and the \<open>&&\<close> of the table
  stays an argument of its own.
\<close>

definition prepare_command :: "os_env \<Rightarrow> string \<Rightarrow> string \<Rightarrow> string \<Rightarrow> pyexn + string list" where
  "prepare_command env lang file_path temp_dir =
    (case getitem supported_languages lang of
       Inl e \<Rightarrow> Inl e
     | Inr (ext, cmd) \<Rightarrow>
        if lang = ''java''
        then Inr [''java'', ''-cp'', temp_dir, stem env file_path]
        else if lang \<in> set [''cpp'', ''c'', ''rust'']
        then (let output_file = path_join env temp_dir ''output'';
                  output_file = (if os_name env = ''nt''
                                 then with_suffix env output_file ''.exe'' else output_file)
              in Inr (map (\<lambda>c. replace ''{output}'' output_file (replace ''{file}'' file_path c)) cmd))
        else Inr (cmd @ [file_path]))"

text \<open>
  The parameters of the constructor of \<open>subprocess.Popen\<close>. A keyword argument outside
  this list is rejected with \<open>TypeError\<close> when the call is bound, before any process is
  started.
\<close>

definition Popen_parameters :: "string list" where
  "Popen_parameters =
    [''args'', ''bufsize'', ''executable'', ''stdin'', ''stdout'', ''stderr'', ''preexec_fn'',
     ''close_fds'', ''shell'', ''cwd'', ''env'', ''universal_newlines'', ''startupinfo'',
     ''creationflags'', ''restore_signals'', ''start_new_session'', ''pass_fds'', ''user'',
     ''group'', ''extra_groups'', ''encoding'', ''errors'', ''text'', ''umask'', ''pipesize'',
     ''process_group'']"

definition unexpected_keyword :: "string \<Rightarrow> pyexn" where
  "unexpected_keyword k =
    PyException (''Popen.__init__() got an unexpected keyword argument ''
                 @ [CHR 0x27] @ k @ [CHR 0x27])"

text \<open>
  \<open>subprocess.Popen(command, **kwargs)\<close> with the keyword names \<open>kwargs\<close>: the started
  process is recorded in the world, or the exception raised.
\<close>

definition Popen ::
  "os_env \<Rightarrow> world \<Rightarrow> string list \<Rightarrow> string list \<Rightarrow> string option \<Rightarrow> pyexn + world" where
  "Popen env w kwargs cmd cwd =
    (case find (\<lambda>k. k \<notin> set Popen_parameters) kwargs of
       Some k \<Rightarrow> Inl (unexpected_keyword k)
     | None \<Rightarrow>
        (case spawn_error env w cmd cwd of
           Some e \<Rightarrow> Inl e
         | None \<Rightarrow> Inr (w\<lparr>spawned := spawned w @ [cmd]\<rparr>)))"

text \<open>\<open>process.communicate(input=stdin, timeout=t)\<close> on a started process.\<close>

definition communicate ::
  "os_env \<Rightarrow> world \<Rightarrow> string list \<Rightarrow> string option \<Rightarrow> string option \<Rightarrow> int option
     \<Rightarrow> (pyexn + string \<times> string \<times> int) \<times> world" where
  "communicate env w cmd stdin cwd t =
    (case child env w cmd stdin cwd t of
       Exits out err rc ps \<Rightarrow> (Inr (out, err, rc), add_files ps w)
     | TimesOut ps \<Rightarrow> (Inl (TimeoutExpired ''timed out''), add_files ps w)
     | CommunicateFails e ps \<Rightarrow> (Inl e, add_files ps w))"

text \<open>
  Lines 125 to 138 of \<open>_execute_with_limits\<close>: the dict returned once \<open>communicate\<close>
  has delivered both streams and the process has a return code.
\<close>

definition completed_result :: "string \<Rightarrow> string \<Rightarrow> int \<Rightarrow> pydict" where
  "completed_result stdout stderr returncode =
    (let stdout = (if length stdout > max_output_size
                   then take max_output_size stdout @ ''\<newline>[Output truncated - too large]''
                   else stdout);
         stderr = (if length stderr > max_output_size
                   then take max_output_size stderr @ ''\<newline>[Error output truncated - too large]''
                   else stderr)
     in [(''success'', PBool (returncode = 0)),
         (''stdout'', PStr stdout),
         (''stderr'', PStr (if returncode \<noteq> 0 then stderr else [])),
         (''return_code'', PInt returncode),
         (''memory_usage'', PInt 0)])"

text \<open>The two \<open>except\<close> clauses of \<open>_execute_with_limits\<close>.\<close>

fun execute_except :: "pyexn \<Rightarrow> pydict" where
  "execute_except (TimeoutExpired m) =
    [(''success'', PBool False),
     (''stdout'', PStr []),
     (''stderr'', PStr (''Execution timed out after '' @ str_int max_execution_time @ '' seconds'')),
     (''return_code'', PInt (- 1)),
     (''memory_usage'', PInt 0)]"
| "execute_except (PyException m) =
    [(''success'', PBool False),
     (''stdout'', PStr []),
     (''stderr'', PStr (''Execution failed: '' @ m)),
     (''return_code'', PInt (- 1)),
     (''memory_usage'', PInt 0)]"

text \<open>
  The \<open>try\<close> block of \<open>_execute_with_limits\<close>. The source passes \<open>timeout\<close> to
  \<open>Popen\<close> among the keyword arguments.
\<close>

definition execute_with_limits_try ::
  "os_env \<Rightarrow> world \<Rightarrow> string list \<Rightarrow> string option \<Rightarrow> string \<Rightarrow> (pyexn + pydict) \<times> world" where
  "execute_with_limits_try env w cmd stdin cwd =
    (case Popen env w [''stdin'', ''stdout'', ''stderr'', ''cwd'', ''text'', ''timeout'', ''shell'']
            cmd (Some cwd) of
       Inl e \<Rightarrow> (Inl e, w)
     | Inr w1 \<Rightarrow>
        (case communicate env w1 cmd stdin (Some cwd) (Some max_execution_time) of
           (Inl e, w2) \<Rightarrow> (Inl e, w2)
         | (Inr (stdout, stderr, returncode), w2) \<Rightarrow>
             (Inr (completed_result stdout stderr returncode), w2)))"

text \<open>\<open>CodeExecutor._execute_with_limits\<close>: the \<open>try\<close> block under its handlers.\<close>

definition execute_with_limits ::
  "os_env \<Rightarrow> world \<Rightarrow> string list \<Rightarrow> string option \<Rightarrow> string \<Rightarrow> pydict \<times> world" where
  "execute_with_limits env w cmd stdin cwd =
    (case execute_with_limits_try env w cmd stdin cwd of
       (Inr r, w1) \<Rightarrow> (r, w1)
     | (Inl e, w1) \<Rightarrow> (execute_except e, w1))"

text \<open>
  \<open>TemporaryDirectory.cleanup\<close>: the directory and everything below it is removed.
\<close>

definition inside :: "os_env \<Rightarrow> string \<Rightarrow> string \<Rightarrow> bool" where
  "inside env d p = (p = d \<or> take (length d + length (path_sep env)) p = d @ path_sep env)"

definition cleanup :: "os_env \<Rightarrow> string \<Rightarrow> world \<Rightarrow> world" where
  "cleanup env d w = w\<lparr>files := {p \<in> files w. \<not> inside env d p}\<rparr>"

text \<open>The statements inside \<open>with tempfile.TemporaryDirectory() as temp_dir\<close>.\<close>

definition run_code_with ::
  "os_env \<Rightarrow> world \<Rightarrow> string \<Rightarrow> string \<Rightarrow> string option \<Rightarrow> string \<Rightarrow> (pyexn + pydict) \<times> world" where
  "run_code_with env w lang src stdin temp_dir =
    (case getitem supported_languages lang of
       Inl e \<Rightarrow> (Inl e, w)
     | Inr (file_extension, cmd) \<Rightarrow>
        (let temp_file = path_join env temp_dir (''code'' @ file_extension)
         in case open_w env w temp_file of
              Some e \<Rightarrow> (Inl e, w)
            | None \<Rightarrow>
               (let w1 = add_files [temp_file] w
                in case write_text env w1 temp_file src of
                     Some e \<Rightarrow> (Inl e, w1)
                   | None \<Rightarrow>
                      (case prepare_command env lang temp_file temp_dir of
                         Inl e \<Rightarrow> (Inl e, w1)
                       | Inr command \<Rightarrow>
                          (let (result, w2) = execute_with_limits env w1 command stdin temp_dir
                           in case getitem result ''success'' of
                                Inl e \<Rightarrow> (Inl e, w2)
                              | Inr success \<Rightarrow>
                             (case getitem result ''stdout'' of
                                Inl e \<Rightarrow> (Inl e, w2)
                              | Inr stdout \<Rightarrow>
                             (case getitem result ''stderr'' of
                                Inl e \<Rightarrow> (Inl e, w2)
                              | Inr stderr \<Rightarrow>
                                  (Inr [(''success'', success),
                                        (''output'', stdout),
                                        (''error'', stderr),
                                        (''execution_time'',
                                           PFloat (round3 (time_end env - time_start env))),
                                        (''memory_usage'',
                                           (case map_of result ''memory_usage'' of
                                              Some v \<Rightarrow> v | None \<Rightarrow> PInt 0)),
                                        (''language'', PStr lang)], w2))))))))"

text \<open>
  The \<open>try\<close> block of \<open>run_code\<close>: the directory is created, the body runs, and the
  directory is removed when the \<open>with\<close> statement is left, by \<open>return\<close> or by an
  exception.
\<close>

definition run_code_try ::
  "os_env \<Rightarrow> world \<Rightarrow> string \<Rightarrow> string \<Rightarrow> string option \<Rightarrow> (pyexn + pydict) \<times> world" where
  "run_code_try env w lang src stdin =
    (case mkdtemp env w of
       Inl e \<Rightarrow> (Inl e, w)
     | Inr temp_dir \<Rightarrow>
        (let (r, w1) = run_code_with env (add_files [temp_dir] w) lang src stdin temp_dir
         in (r, cleanup env temp_dir w1)))"

text \<open>
  \<open>CodeExecutor.run_code\<close>. The result is \<open>Inl e\<close> if the exception \<open>e\<close> leaves the
  method and \<open>Inr d\<close> if the dict \<open>d\<close> is returned.
\<close>

definition run_code ::
  "os_env \<Rightarrow> world \<Rightarrow> string \<Rightarrow> string \<Rightarrow> string option \<Rightarrow> (pyexn + pydict) \<times> world" where
  "run_code env w lang0 src stdin =
    (let lang = lower lang0
     in if lang \<notin> set (map fst supported_languages)
        then (Inr [(''success'', PBool False),
                   (''output'', PStr []),
                   (''error'', PStr (''Language '' @ [CHR 0x27] @ lang @ [CHR 0x27]
                        @ '' is not supported. Supported languages: ''
                        @ join '', '' (map fst supported_languages))),
                   (''execution_time'', PInt 0),
                   (''memory_usage'', PInt 0)], w)
        else (case run_code_try env w lang src stdin of
                (Inr r, w1) \<Rightarrow> (Inr r, w1)
              | (Inl e, w1) \<Rightarrow>
                  (Inr [(''success'', PBool False),
                        (''output'', PStr []),
                        (''error'', PStr (''Execution error: '' @ exn_str e)),
                        (''execution_time'', PFloat (round3 (time_end env - time_start env))),
                        (''memory_usage'', PInt 0),
                        (''language'', PStr lang)], w1)))"

section \<open>The execute endpoint (api/code.py)\<close>

record CodeExecutionRequest =
  code :: string
  language :: string
  input_data :: "string option"
  timeout :: "int option"
  memory_limit :: "int option"

record CodeExecutionResponse =
  "output" :: string
  error :: "string option"
  execution_time :: "real option"
  memory_usage :: "real option"
  cpu_usage :: "real option"
  exit_code :: "int option"

record LanguageInfo =
  name :: string
  extension :: string
  command :: string
  args :: "string list"

datatype HTTPException = HTTPException int string

text \<open>The \<open>languages\<close> table built at lines 88 to 161.\<close>

definition languages :: "(string \<times> LanguageInfo) list" where
  "languages =
    [(''python'', \<lparr>name = ''Python'', extension = ''.py'', command = ''python'', args = []\<rparr>),
     (''javascript'',
        \<lparr>name = ''JavaScript'', extension = ''.js'', command = ''node'', args = []\<rparr>),
     (''typescript'',
        \<lparr>name = ''TypeScript'', extension = ''.ts'', command = ''ts-node'', args = []\<rparr>),
     (''java'', \<lparr>name = ''Java'', extension = ''.java'', command = ''java'', args = []\<rparr>),
     (''cpp'', \<lparr>name = ''C++'', extension = ''.cpp'', command = ''g++'',
                args = [''-o'', ''program'', ''-std=c++17'']\<rparr>),
     (''c'', \<lparr>name = ''C'', extension = ''.c'', command = ''gcc'',
              args = [''-o'', ''program'', ''-std=c99'']\<rparr>),
     (''go'', \<lparr>name = ''Go'', extension = ''.go'', command = ''go'', args = [''run'']\<rparr>),
     (''rust'', \<lparr>name = ''Rust'', extension = ''.rs'', command = ''rustc'',
                 args = [''-o'', ''program'']\<rparr>),
     (''php'', \<lparr>name = ''PHP'', extension = ''.php'', command = ''php'', args = []\<rparr>),
     (''ruby'', \<lparr>name = ''Ruby'', extension = ''.rb'', command = ''ruby'', args = []\<rparr>),
     (''csharp'', \<lparr>name = ''C#'', extension = ''.cs'', command = ''dotnet'', args = [''run'']\<rparr>),
     (''swift'', \<lparr>name = ''Swift'', extension = ''.swift'', command = ''swift'', args = []\<rparr>)]"

text \<open>
  Lines 170 to 179: markdown fences are removed from the submitted text. The three
  regular expressions are handed to the library as the source writes them (the first
  with \<open>re.DOTALL\<close>).
\<close>

definition fenced_block_pattern :: string where
  "fenced_block_pattern =
    ''```(?:python|javascript|java|cpp|c|go|rust|php|ruby|csharp|typescript|swift)?''
    @ [CHR 0x5C] @ ''n(.*?)```''"

definition fence_line_pattern :: string where
  "fence_line_pattern = ''```.*?'' @ [CHR 0x5C] @ ''n''"

definition clean_markdown :: "os_env \<Rightarrow> string \<Rightarrow> string" where
  "clean_markdown env src =
    (if contains ''```'' src
     then (case re_findall env fenced_block_pattern src of
             b # bs \<Rightarrow> strip b
           | [] \<Rightarrow> re_sub env ''```'' [] (re_sub env fence_line_pattern [] src))
     else src)"

text \<open>
  \<open>subprocess.run(argv, capture_output=True, text=True, input=inp, timeout=t, cwd=cwd)\<close>:
  \<open>run\<close> keeps \<open>input\<close>, \<open>timeout\<close> and \<open>capture_output\<close> for itself and starts
  \<open>Popen\<close> with the pipes, \<open>text\<close> and \<open>cwd\<close>; then it communicates.
\<close>

definition subprocess_run ::
  "os_env \<Rightarrow> world \<Rightarrow> string list \<Rightarrow> string option \<Rightarrow> int option \<Rightarrow> string option
     \<Rightarrow> (pyexn + string \<times> string \<times> int) \<times> world" where
  "subprocess_run env w argv inp t cwd =
    (case Popen env w
            ([''text'', ''stdout'', ''stderr'']
             @ (if inp \<noteq> None then [''stdin''] else [])
             @ (if cwd \<noteq> None then [''cwd''] else []))
            argv cwd of
       Inl e \<Rightarrow> (Inl e, w)
     | Inr w1 \<Rightarrow> communicate env w1 argv inp cwd t)"

text \<open>
  Every \<open>CodeExecutionResponse\<close> the endpoint builds carries the same three
  measurements; only output, error and exit code differ.
\<close>

definition make_response :: "os_env \<Rightarrow> string \<Rightarrow> string option \<Rightarrow> int \<Rightarrow> CodeExecutionResponse" where
  "make_response env out err rc =
    \<lparr>output = out, error = err,
     execution_time = Some (time_end env - time_start env),
     memory_usage = Some (memory_final env - memory_initial env),
     cpu_usage = Some (cpu_final env - cpu_initial env),
     exit_code = Some rc\<rparr>"

text \<open>
  A run step and the response built from it at lines 303 to 314:
  \<open>error = exec_result.stderr if exec_result.returncode != 0 else None\<close>.
\<close>

definition run_step ::
  "os_env \<Rightarrow> world \<Rightarrow> CodeExecutionRequest \<Rightarrow> string list \<Rightarrow> string option
     \<Rightarrow> (pyexn + CodeExecutionResponse) \<times> world" where
  "run_step env w request argv cwd =
    (case subprocess_run env w argv (input_data request) (timeout request) cwd of
       (Inl e, w1) \<Rightarrow> (Inl e, w1)
     | (Inr (out, err, rc), w1) \<Rightarrow>
         (Inr (make_response env out (if rc \<noteq> 0 then Some err else None) rc), w1))"

text \<open>
  The shape shared by the branch for cpp, c and rust (lines 192 to 221) and the branch for
  java (lines 223 to 255): compile, return at once if the compiler's return code is not
  zero, otherwise run.
\<close>

definition compile_and_run ::
  "os_env \<Rightarrow> world \<Rightarrow> CodeExecutionRequest \<Rightarrow> string list \<Rightarrow> string list
     \<Rightarrow> (pyexn + CodeExecutionResponse) \<times> world" where
  "compile_and_run env w request compile_argv run_argv =
    (case subprocess_run env w compile_argv None (timeout request) None of
       (Inl e, w1) \<Rightarrow> (Inl e, w1)
     | (Inr (out, err, rc), w1) \<Rightarrow>
         if rc \<noteq> 0
         then (Inr (make_response env [] (Some (''Compilation error:\<newline>'' @ err)) rc), w1)
         else run_step env w1 request run_argv None)"

definition csproj_text :: string where
  "csproj_text =
    ''<Project Sdk=\"Microsoft.NET.Sdk\">\<newline>  <PropertyGroup>\<newline>    <OutputType>Exe</OutputType>\<newline>    <TargetFramework>net6.0</TargetFramework>\<newline>  </PropertyGroup>\<newline></Project>''"

text \<open>\<open>with open(path, 'w') as f: f.write(text)\<close>.\<close>

definition write_file :: "os_env \<Rightarrow> world \<Rightarrow> string \<Rightarrow> string \<Rightarrow> pyexn option \<times> world" where
  "write_file env w path text =
    (case open_w env w path of
       Some e \<Rightarrow> (Some e, w)
     | None \<Rightarrow> (write_text env (add_files [path] w) path text, add_files [path] w))"

text \<open>The branch for csharp (lines 257 to 288).\<close>

definition run_csharp ::
  "os_env \<Rightarrow> world \<Rightarrow> CodeExecutionRequest \<Rightarrow> string
     \<Rightarrow> (pyexn + CodeExecutionResponse) \<times> world" where
  "run_csharp env w request clean_code =
    (let project_dir = ''/tmp/csharp_project_'' @ take 8 (uuid4_hex env)
     in case makedirs env w project_dir of
          Some e \<Rightarrow> (Inl e, w)
        | None \<Rightarrow>
           (case write_file env (add_files [project_dir] w)
                   (path_join env project_dir ''Program.csproj'') csproj_text of
              (Some e, w1) \<Rightarrow> (Inl e, w1)
            | (None, w1) \<Rightarrow>
               (case write_file env w1 (path_join env project_dir ''Program.cs'') clean_code of
                  (Some e, w2) \<Rightarrow> (Inl e, w2)
                | (None, w2) \<Rightarrow>
                    run_step env w2 request [''dotnet'', ''run''] (Some project_dir))))"

text \<open>The inner \<open>try\<close> block (lines 190 to 314).\<close>

definition execute_try ::
  "os_env \<Rightarrow> world \<Rightarrow> CodeExecutionRequest \<Rightarrow> LanguageInfo \<Rightarrow> string \<Rightarrow> string
     \<Rightarrow> (pyexn + CodeExecutionResponse) \<times> world" where
  "execute_try env w request lang_info temp_file_path clean_code =
    (if language request \<in> set [''cpp'', ''c'', ''rust'']
     then compile_and_run env w request
            ([command lang_info] @ args lang_info @ [temp_file_path]) [''./program'']
     else if language request = ''java''
     then (let class_name = replace ''.java'' [] (basename env temp_file_path)
           in compile_and_run env w request
                [''javac'', temp_file_path] [''java'', ''-cp'', ''/tmp'', class_name])
     else if language request = ''csharp''
     then run_csharp env w request clean_code
     else run_step env w request
            ([command lang_info] @ args lang_info @ [temp_file_path]) None)"

text \<open>\<open>str(request.timeout)\<close> for the optional integer.\<close>

definition str_timeout :: "int option \<Rightarrow> string" where
  "str_timeout t = (case t of None \<Rightarrow> ''None'' | Some n \<Rightarrow> str_int n)"

text \<open>The two \<open>except\<close> clauses of the inner \<open>try\<close> (lines 316 to 333).\<close>

fun execute_handler :: "os_env \<Rightarrow> CodeExecutionRequest \<Rightarrow> pyexn \<Rightarrow> CodeExecutionResponse" where
  "execute_handler env request (TimeoutExpired m) =
    make_response env []
      (Some (''Execution timeout after '' @ str_timeout (timeout request) @ '' seconds'')) (- 1)"
| "execute_handler env request (PyException m) =
    make_response env [] (Some (''Execution error: '' @ m)) (- 1)"

text \<open>
  \<open>execute_code\<close>. The outer \<open>except Exception\<close> turns whatever is raised outside the
  inner \<open>try\<close> into status 500, the \<open>HTTPException\<close> with status 400 for an unknown
  language included; its \<open>str\<close> is the status, a colon and the detail. The temporary file
  is made with \<open>delete=False\<close> and no statement of the function removes it.
\<close>

definition execute_code ::
  "os_env \<Rightarrow> world \<Rightarrow> CodeExecutionRequest \<Rightarrow> (HTTPException + CodeExecutionResponse) \<times> world" where
  "execute_code env w request =
    (case map_of languages (language request) of
       None \<Rightarrow>
         (Inl (HTTPException 500 (''Code execution error: '' @ str_int 400 @ '': ''
                 @ ''Unsupported language: '' @ language request)), w)
     | Some lang_info \<Rightarrow>
        (let temp_dir = gettempdir env;
             clean_code = clean_markdown env (code request)
         in case mkstemp env w (extension lang_info) temp_dir of
              Inl e \<Rightarrow> (Inl (HTTPException 500 (''Code execution error: '' @ exn_str e)), w)
            | Inr temp_file_path \<Rightarrow>
               (let w1 = add_files [temp_file_path] w
                in case write_text env w1 temp_file_path clean_code of
                     Some e \<Rightarrow>
                       (Inl (HTTPException 500 (''Code execution error: '' @ exn_str e)), w1)
                   | None \<Rightarrow>
                      (case execute_try env w1 request lang_info temp_file_path clean_code of
                         (Inr r, w2) \<Rightarrow> (Inr r, w2)
                       | (Inl e, w2) \<Rightarrow> (Inr (execute_handler env request e), w2)))))"

section \<open>A sample environment\<close>

text \<open>
  A POSIX machine on which every file operation succeeds, every program starts, and every
  child prints \<open>out\<close> and exits with code 0 without writing a file. The theorems below
  override single fields of it.
\<close>

definition sample_env :: os_env where
  "sample_env =
    \<lparr>os_name = ''posix'',
     time_start = 100,
     time_end = 101,
     mkdtemp = (\<lambda>w. Inr ''/tmp/tmpk3x''),
     open_w = (\<lambda>w p. None),
     write_text = (\<lambda>w p s. None),
     spawn_error = (\<lambda>w argv cwd. None),
     child = (\<lambda>w argv inp cwd t. Exits ''out'' [] 0 []),
     gettempdir = ''/tmp'',
     mkstemp = (\<lambda>w suf d. Inr (d @ ''/tmpq7z'' @ suf)),
     makedirs = (\<lambda>w p. None),
     uuid4_hex = ''0123456789abcdef0123456789abcdef'',
     re_findall = (\<lambda>pat s. []),
     re_sub = (\<lambda>pat rep s. s),
     memory_initial = 40,
     memory_final = 41,
     cpu_initial = 5,
     cpu_final = 6\<rparr>"

definition empty_world :: world where
  "empty_world = \<lparr>files = {}, spawned = []\<rparr>"

section \<open>Properties of the rate limiter\<close>

lemma evict_dropWhile: "evict c xs = dropWhile (\<lambda>x. x < c) xs"
  by (induction xs) auto

lemma get_limit_pos: "0 < get_limit user_type limit_type"
  by (auto simp: get_limit_def user_limits_def default_limits_def)

lemma record_of_is_allowed:
  "record_of (snd (is_allowed s now key lt ut)) key lt =
     (let d = evict (now - window lt) (record_of s key lt)
      in if int (length d) \<ge> get_limit ut lt then d else d @ [now])"
  by (simp add: is_allowed_def record_of_def requests_getitem_def Let_def split: option.splits)

lemma fst_is_allowed:
  "fst (is_allowed s now key lt ut) =
     (int (length (evict (now - window lt) (record_of s key lt))) < get_limit ut lt)"
  by (auto simp add: is_allowed_def record_of_def requests_getitem_def Let_def
      split: option.splits)

text \<open>Evicting with an earlier cutoff first changes nothing for a later cutoff.\<close>

lemma evict_evict: "c' \<le> c \<Longrightarrow> evict c (evict c' xs) = evict c xs"
  by (induction xs) auto

lemma evict_snoc: "c \<le> y \<Longrightarrow> evict c (xs @ [y]) = evict c xs @ [y]"
  by (induction xs) auto

text \<open>
  While every call is made inside the window that ends at \<open>c + window\<close>, each admitted
  call adds exactly one timestamp that the cutoff \<open>c\<close> does not evict, and a denied call
  adds none.
\<close>

lemma is_allowed_seq_count:
  "\<forall>x\<in>set ts. c \<le> x \<and> x - window lt \<le> c \<Longrightarrow>
   length (evict c (record_of (snd (is_allowed_seq s ts key lt ut)) key lt)) =
   length (evict c (record_of s key lt))
     + length (filter (\<lambda>b. b) (fst (is_allowed_seq s ts key lt ut)))"
proof (induction ts arbitrary: s)
  case Nil
  then show ?case by simp
next
  case (Cons t ts)
  obtain b s1 where st: "is_allowed s t key lt ut = (b, s1)"
    by (cases "is_allowed s t key lt ut")
  have b: "b = fst (is_allowed s t key lt ut)" and s1: "s1 = snd (is_allowed s t key lt ut)"
    using st by simp_all
  from Cons.prems have t: "c \<le> t" "t - window lt \<le> c" by simp_all
  have step: "length (evict c (record_of s1 key lt)) =
      length (evict c (record_of s key lt)) + (if b then 1 else 0)"
    unfolding s1 b record_of_is_allowed fst_is_allowed Let_def
    using t by (auto simp: evict_evict evict_snoc)
  have IH: "length (evict c (record_of (snd (is_allowed_seq s1 ts key lt ut)) key lt)) =
      length (evict c (record_of s1 key lt))
        + length (filter (\<lambda>b. b) (fst (is_allowed_seq s1 ts key lt ut)))"
    using Cons.IH Cons.prems by simp
  show ?case using st IH step by (simp add: split_beta)
qed

text \<open>
  C2. Let the calls of \<open>is_allowed\<close> for one key, limit type and tier be made at the
  clock readings \<open>ts\<close>, all inside the window that ends at the reading \<open>t\<close>, and let
  exactly as many of them be admitted as the ceiling allows. Then the next call, at \<open>t\<close>,
  returns false, and the key's record after it is the record before it with the stale
  timestamps evicted: nothing is appended. And whenever every timestamp recorded for the
  key is older than the window, a call returns true.
\<close>

theorem is_allowed_ceiling:
  assumes win: "\<forall>x\<in>set ts. t - window lt \<le> x \<and> x \<le> t"
    and adm: "int (length (filter (\<lambda>b. b) (fst (is_allowed_seq s ts key lt ut))))
                = get_limit ut lt"
  shows "fst (is_allowed (snd (is_allowed_seq s ts key lt ut)) t key lt ut) = False
    \<and> record_of (snd (is_allowed (snd (is_allowed_seq s ts key lt ut)) t key lt ut)) key lt
        = evict (t - window lt) (record_of (snd (is_allowed_seq s ts key lt ut)) key lt)
    \<and> (\<forall>s' t'. (\<forall>x\<in>set (record_of s' key lt). x < t' - window lt)
          \<longrightarrow> fst (is_allowed s' t' key lt ut) = True)"
proof -
  let ?s1 = "snd (is_allowed_seq s ts key lt ut)"
  have "\<forall>x\<in>set ts. t - window lt \<le> x \<and> x - window lt \<le> t - window lt"
    using win by auto
  from is_allowed_seq_count [OF this, of s key ut]
  have "int (length (evict (t - window lt) (record_of ?s1 key lt))) \<ge> get_limit ut lt"
    using adm by simp
  then have deny: "fst (is_allowed ?s1 t key lt ut) = False"
    and keep: "record_of (snd (is_allowed ?s1 t key lt ut)) key lt
        = evict (t - window lt) (record_of ?s1 key lt)"
    by (simp_all add: fst_is_allowed record_of_is_allowed)
  have again: "fst (is_allowed s' t' key lt ut) = True"
    if "\<forall>x\<in>set (record_of s' key lt). x < t' - window lt" for s' t'
  proof -
    have "evict (t' - window lt) (record_of s' key lt) = []"
      using that by (simp add: evict_dropWhile)
    then show ?thesis using get_limit_pos [of ut lt] by (simp add: fst_is_allowed)
  qed
  show ?thesis using deny keep again by blast
qed

lemma window_code_executions: "window ''code_executions_per_minute'' = 60"
  by (simp add: window_def)

lemma get_limit_demo_code_executions: "get_limit ''demo'' ''code_executions_per_minute'' = 5"
  by (simp add: get_limit_def user_limits_def default_limits_def)

text \<open>
  C2, at a concrete input: the demo tier allows 5 code executions per minute. On a new
  limiter the calls at seconds 0 to 4 are admitted, the call at second 5 is denied and
  leaves the five timestamps as they are, and the call at second 65 is admitted.
\<close>

theorem is_allowed_ceiling_witness:
  "fst (is_allowed (snd (is_allowed_seq \<lparr>requests = Map.empty\<rparr> [0, 1, 2, 3, 4]
          ''u1'' ''code_executions_per_minute'' ''demo'')) 5
          ''u1'' ''code_executions_per_minute'' ''demo'') = False
   \<and> record_of (snd (is_allowed (snd (is_allowed_seq \<lparr>requests = Map.empty\<rparr> [0, 1, 2, 3, 4]
          ''u1'' ''code_executions_per_minute'' ''demo'')) 5
          ''u1'' ''code_executions_per_minute'' ''demo'')) ''u1'' ''code_executions_per_minute''
       = [0, 1, 2, 3, 4]
   \<and> fst (is_allowed (snd (is_allowed (snd (is_allowed_seq \<lparr>requests = Map.empty\<rparr>
          [0, 1, 2, 3, 4] ''u1'' ''code_executions_per_minute'' ''demo'')) 5
          ''u1'' ''code_executions_per_minute'' ''demo'')) 65
          ''u1'' ''code_executions_per_minute'' ''demo'') = True"
proof -
  note is_allowed_seq.simps [simp del]
  let ?lt = "''code_executions_per_minute''"
  let ?run = "is_allowed_seq \<lparr>requests = Map.empty\<rparr> [0, 1, 2, 3, 4] ''u1'' ?lt ''demo''"
  have run: "?run = ([True, True, True, True, True],
      \<lparr>requests = [store_key ''u1'' ?lt \<mapsto> [0, 1, 2, 3, 4]]\<rparr>)"
    by (simp add: is_allowed_seq.simps is_allowed_def requests_getitem_def
        window_code_executions get_limit_demo_code_executions Let_def)
  have h1: "\<forall>x\<in>set [0, 1, 2, 3, 4::real]. 5 - window ?lt \<le> x \<and> x \<le> 5"
    by (simp add: window_code_executions)
  have h2: "int (length (filter (\<lambda>b. b) (fst ?run))) = get_limit ''demo'' ?lt"
    unfolding run by (simp add: get_limit_demo_code_executions)
  note c2 = is_allowed_ceiling [OF h1 h2]
  have rec: "record_of (snd ?run) ''u1'' ?lt = [0, 1, 2, 3, 4]"
    unfolding run by (simp add: record_of_def)
  have r2: "record_of (snd (is_allowed (snd ?run) 5 ''u1'' ?lt ''demo'')) ''u1'' ?lt
      = [0, 1, 2, 3, 4]"
    using c2 by (simp add: rec window_code_executions)
  have "fst (is_allowed (snd (is_allowed (snd ?run) 5 ''u1'' ?lt ''demo'')) 65
      ''u1'' ?lt ''demo'') = True"
    using c2 by (simp add: r2 window_code_executions)
  with c2 r2 show ?thesis by simp
qed

text \<open>On a record in time order, eviction keeps exactly the timestamps inside the window.\<close>

lemma evict_sorted_filter:
  "sorted xs \<Longrightarrow> evict c xs = filter (\<lambda>x. c \<le> x) xs"
proof (induction xs)
  case Nil
  then show ?case by simp
next
  case (Cons x xs)
  show ?case
  proof (cases "x < c")
    case True
    with Cons show ?thesis by simp
  next
    case False
    with Cons.prems have "\<forall>y\<in>set (x # xs). c \<le> y" by auto
    then have "filter (\<lambda>x. c \<le> x) (x # xs) = x # xs" by (simp only: filter_True)
    with False show ?thesis by simp
  qed
qed

text \<open>
  C8, as amended. \<open>get_remaining_requests\<close> returns \<open>max(0, ceiling - count)\<close>, where
  \<open>count\<close> is the length of the key's record after the stale timestamps at its front
  have been evicted; on a record in time order these are exactly the timestamps still
  inside the window. The call appends nothing, and it does change the state: the key's
  record is replaced by the evicted one (an unseen key gets an empty record).
\<close>

theorem get_remaining_requests_result:
  "fst (get_remaining_requests s now key lt ut)
     = max 0 (get_limit ut lt - int (length (evict (now - window lt) (record_of s key lt))))
   \<and> (sorted (record_of s key lt) \<longrightarrow>
        evict (now - window lt) (record_of s key lt)
          = filter (\<lambda>x. now - window lt \<le> x) (record_of s key lt))
   \<and> snd (get_remaining_requests s now key lt ut)
     = s\<lparr>requests := (requests s)(store_key key lt \<mapsto>
           evict (now - window lt) (record_of s key lt))\<rparr>"
  by (auto simp: get_remaining_requests_def requests_getitem_def record_of_def Let_def
      evict_sorted_filter split: option.splits)

text \<open>
  C8, at a concrete input: with timestamps 0, 50 and 90 recorded and the clock at 100, the
  demo tier (30 requests per minute) has 28 requests left, and the record becomes 50, 90.
\<close>

theorem get_remaining_requests_result_witness:
  "fst (get_remaining_requests
         \<lparr>requests = [store_key ''u1'' ''requests_per_minute'' \<mapsto> [0, 50, 90]]\<rparr>
         100 ''u1'' ''requests_per_minute'' ''demo'') = 28
   \<and> evict (100 - window ''requests_per_minute'') [0, 50, 90] = [50, 90]
   \<and> requests (snd (get_remaining_requests
         \<lparr>requests = [store_key ''u1'' ''requests_per_minute'' \<mapsto> [0, 50, 90]]\<rparr>
         100 ''u1'' ''requests_per_minute'' ''demo'')) (store_key ''u1'' ''requests_per_minute'')
       = Some [50, 90]"
  using get_remaining_requests_result
    [of "\<lparr>requests = [store_key ''u1'' ''requests_per_minute'' \<mapsto> [0, 50, 90]]\<rparr>"
      100 "''u1''" "''requests_per_minute''" "''demo''"]
  by (simp add: record_of_def window_def get_limit_def user_limits_def default_limits_def)

text \<open>
  C8 as stated fails: with one timestamp recorded at second 0, a call at second 100 leaves
  a state different from the one it was given (the stale timestamp is gone).
\<close>

theorem get_remaining_requests_mutates:
  "snd (get_remaining_requests \<lparr>requests = [store_key ''u1'' ''requests_per_minute'' \<mapsto> [0]]\<rparr>
         100 ''u1'' ''requests_per_minute'' ''default'')
   \<noteq> \<lparr>requests = [store_key ''u1'' ''requests_per_minute'' \<mapsto> [0]]\<rparr>"
proof
  assume "snd (get_remaining_requests
         \<lparr>requests = [store_key ''u1'' ''requests_per_minute'' \<mapsto> [0]]\<rparr>
         100 ''u1'' ''requests_per_minute'' ''default'')
   = \<lparr>requests = [store_key ''u1'' ''requests_per_minute'' \<mapsto> [0]]\<rparr>"
  then have "requests (snd (get_remaining_requests
         \<lparr>requests = [store_key ''u1'' ''requests_per_minute'' \<mapsto> [0]]\<rparr>
         100 ''u1'' ''requests_per_minute'' ''default''))
       (store_key ''u1'' ''requests_per_minute'') = Some [0]"
    by simp
  then show False
    by (simp add: get_remaining_requests_def requests_getitem_def window_def Let_def)
qed

section \<open>Properties of the validator\<close>

lemma strip_empty_iff: "strip s = [] \<longleftrightarrow> (\<forall>c\<in>set s. is_space c)"
proof
  assume "strip s = []"
  then have "dropWhile is_space (rev (dropWhile is_space s)) = []" by (simp add: strip_def)
  then have "\<forall>c\<in>set (dropWhile is_space s). is_space c"
    by (simp add: dropWhile_eq_Nil_conv)
  moreover have "dropWhile is_space s = [] \<or> \<not> is_space (hd (dropWhile is_space s))"
    using hd_dropWhile by blast
  ultimately have "dropWhile is_space s = []"
    by (metis hd_in_set)
  then show "\<forall>c\<in>set s. is_space c" by (simp add: dropWhile_eq_Nil_conv)
next
  assume "\<forall>c\<in>set s. is_space c"
  then show "strip s = []" by (auto simp: strip_def dest: set_dropWhileD)
qed

text \<open>
  C9, as amended. For every language and every source text that is empty or consists only
  of whitespace, \<open>validate_code\<close> returns \<open>valid\<close> false with the error message
  "Code cannot be empty".
\<close>

theorem validate_code_blank:
  "(\<forall>c\<in>set src. is_space c) \<Longrightarrow>
     validate_code lang src = [(''valid'', PBool False), (''error'', PStr ''Code cannot be empty'')]"
  by (simp add: validate_code_def strip_empty_iff)

text \<open>C9, at concrete inputs: a space, a tab and a newline; and the empty text.\<close>

theorem validate_code_blank_witness:
  "validate_code ''python'' [CHR '' '', CHR 0x09, CHR 0x0A]
     = [(''valid'', PBool False), (''error'', PStr ''Code cannot be empty'')]
   \<and> validate_code ''rust'' []
     = [(''valid'', PBool False), (''error'', PStr ''Code cannot be empty'')]"
proof -
  have h: "\<forall>c\<in>set [CHR '' '', CHR 0x09, CHR 0x0A]. is_space c" by code_simp
  have h0: "\<forall>c\<in>set []. is_space c" by simp
  show ?thesis
    using validate_code_blank [OF h, of "''python''"] validate_code_blank [OF h0, of "''rust''"]
    by simp
qed

text \<open>
  C9 as stated fails on the empty text: the result has no key \<open>reason\<close>, its \<open>error\<close>
  is the message above, and no value in it is the string "empty_code".
\<close>

theorem validate_code_blank_counterexample:
  "map_of (validate_code ''python'' []) ''reason'' = None
   \<and> map_of (validate_code ''python'' []) ''error'' = Some (PStr ''Code cannot be empty'')
   \<and> PStr ''empty_code'' \<notin> snd ` set (validate_code ''python'' [])"
  by code_simp

section \<open>Properties of the execution engine\<close>

subsection \<open>The process is never started\<close>

lemma Popen_timeout_rejected:
  "Popen env w [''stdin'', ''stdout'', ''stderr'', ''cwd'', ''text'', ''timeout'', ''shell''] cmd cwd
     = Inl (unexpected_keyword ''timeout'')"
  by (simp add: Popen_def Popen_parameters_def)

lemma execute_with_limits_try_raises:
  "execute_with_limits_try env w cmd stdin cwd = (Inl (unexpected_keyword ''timeout''), w)"
  by (simp add: execute_with_limits_try_def Popen_timeout_rejected)

lemma execute_with_limits_fails:
  "execute_with_limits env w cmd stdin cwd
     = (execute_except (unexpected_keyword ''timeout''), w)"
  by (simp add: execute_with_limits_def execute_with_limits_try_raises)

lemma run_code_with_fails:
  "run_code_with env w lang src stdin d = (Inr r, w1) \<Longrightarrow>
     map_of r ''success'' = Some (PBool False) \<and> map_of r ''output'' = Some (PStr [])"
  by (auto simp: run_code_with_def execute_with_limits_fails unexpected_keyword_def
      getitem_def Let_def split: sum.splits option.splits prod.splits)

lemma run_code_returns: "\<exists>r. fst (run_code env w lang src stdin) = Inr r"
  by (auto simp: run_code_def Let_def split: sum.splits prod.splits)

lemma run_code_fails:
  "fst (run_code env w lang src stdin) = Inr r \<Longrightarrow>
     map_of r ''success'' = Some (PBool False) \<and> map_of r ''output'' = Some (PStr [])"
  unfolding run_code_def run_code_try_def Let_def
  by (auto split: sum.splits prod.splits if_splits dest: run_code_with_fails)

text \<open>
  C1. On every machine, \<open>run_code("python", "print('hi')")\<close> returns a dict whose
  \<open>success\<close> is false and whose \<open>output\<close> is empty: \<open>Popen\<close> rejects the keyword
  \<open>timeout\<close>, the interpreter is never started, and the handler reports the \<open>TypeError\<close>.
  The claim (success true, output containing "hi") does not hold of the code.
\<close>

theorem run_code_python_print_fails:
  "\<exists>r. fst (run_code env w ''python'' ''print('hi')'' None) = Inr r
     \<and> map_of r ''success'' = Some (PBool False) \<and> map_of r ''output'' = Some (PStr [])"
  using run_code_returns [of env w "''python''" "''print('hi')''" None] run_code_fails
  by blast

text \<open>
  C1 on the sample machine, where a started interpreter would have succeeded: the dict that
  \<open>run_code\<close> returns, and the machine afterwards (no file left, no process started).
\<close>

theorem run_code_python_print_fails_witness:
  "(\<exists>r. fst (run_code sample_env empty_world ''python'' ''print('hi')'' None) = Inr r
      \<and> map_of r ''success'' = Some (PBool False) \<and> map_of r ''output'' = Some (PStr []))
   \<and> run_code sample_env empty_world ''python'' ''print('hi')'' None =
      (Inr [(''success'', PBool False),
            (''output'', PStr []),
            (''error'', PStr (''Execution failed: Popen.__init__() got an unexpected keyword argument 'timeout'' @ [CHR 0x27])),
            (''execution_time'', PFloat 1),
            (''memory_usage'', PInt 0),
            (''language'', PStr ''python'')],
       empty_world)"
proof -
  have a: "\<exists>r. fst (run_code sample_env empty_world ''python'' ''print('hi')'' None) = Inr r
      \<and> map_of r ''success'' = Some (PBool False) \<and> map_of r ''output'' = Some (PStr [])"
    by (rule run_code_python_print_fails)
  have b: "run_code sample_env empty_world ''python'' ''print('hi')'' None =
      (Inr [(''success'', PBool False),
            (''output'', PStr []),
            (''error'', PStr (''Execution failed: Popen.__init__() got an unexpected keyword argument 'timeout'' @ [CHR 0x27])),
            (''execution_time'', PFloat 1),
            (''memory_usage'', PInt 0),
            (''language'', PStr ''python'')],
       empty_world)"
    by code_simp
  show ?thesis by (rule conjI [OF a b])
qed

subsection \<open>Unsupported languages\<close>

text \<open>
  C4, as amended. For every language identifier whose lower-cased form is not a key of
  \<open>supported_languages\<close>, \<open>run_code\<close> returns \<open>success\<close> false, an empty output, the
  error message "Language '...' is not supported. Supported languages: ..." and
  \<open>execution_time\<close> 0, and leaves the machine as it was: no file is created and no
  process is started.
\<close>

theorem run_code_unsupported_language:
  "lower lang \<notin> set (map fst supported_languages) \<Longrightarrow>
   run_code env w lang src stdin =
     (Inr [(''success'', PBool False),
           (''output'', PStr []),
           (''error'', PStr (''Language '' @ [CHR 0x27] @ lower lang @ [CHR 0x27]
                @ '' is not supported. Supported languages: ''
                @ ''python, javascript, typescript, java, cpp, c, go, rust, php, ruby, shell, powershell'')),
           (''execution_time'', PInt 0),
           (''memory_usage'', PInt 0)], w)"
  by (simp add: run_code_def Let_def) (simp add: supported_languages_def)

text \<open>C4, at a concrete input: the language "COBOL".\<close>

theorem run_code_unsupported_language_witness:
  "run_code sample_env empty_world ''COBOL'' ''DISPLAY 1.'' None =
     (Inr [(''success'', PBool False),
           (''output'', PStr []),
           (''error'', PStr ''Language 'cobol' is not supported. Supported languages: python, javascript, typescript, java, cpp, c, go, rust, php, ruby, shell, powershell''),
           (''execution_time'', PInt 0),
           (''memory_usage'', PInt 0)], empty_world)"
proof -
  have low: "lower ''COBOL'' = ''cobol''" by code_simp
  have h: "lower ''COBOL'' \<notin> set (map fst supported_languages)" by code_simp
  show ?thesis
    using run_code_unsupported_language [OF h, of sample_env empty_world "''DISPLAY 1.''" None]
    by (simp add: low)
qed

text \<open>
  C4 as stated fails twice. The identifier "Python" is not in the supported set, yet it is
  lower-cased and taken for python: the result names the language and reports a measured
  execution time, not 0. And the result for "cobol" has no key \<open>classification\<close> and no
  value "unsupported_language".
\<close>

theorem run_code_unsupported_language_counterexample:
  "''Python'' \<notin> set (map fst supported_languages)
   \<and> map_of (projr (fst (run_code sample_env empty_world ''Python'' ''print(1)'' None)))
         ''execution_time'' = Some (PFloat 1)
   \<and> map_of (projr (fst (run_code sample_env empty_world ''Python'' ''print(1)'' None)))
         ''language'' = Some (PStr ''python'')
   \<and> map_of (projr (fst (run_code sample_env empty_world ''cobol'' ''x'' None)))
         ''classification'' = None
   \<and> PStr ''unsupported_language''
        \<notin> snd ` set (projr (fst (run_code sample_env empty_world ''cobol'' ''x'' None)))"
  by code_simp

subsection \<open>Exceptions\<close>

text \<open>
  C5, as amended. \<open>run_code\<close> always returns a dict: no exception leaves it. When the
  \<open>try\<close> block raises \<open>e\<close>, the dict has \<open>success\<close> false, an empty output and the
  error "Execution error: " followed by \<open>str(e)\<close>. When the \<open>try\<close> block of
  \<open>_execute_with_limits\<close> raises an exception other than the timeout, that function returns
  \<open>success\<close> false with the error "Execution failed: " followed by the message. The
  message is the only classification the result carries.
\<close>

theorem run_code_never_raises:
  "(\<exists>r. fst (run_code env w lang src stdin) = Inr r)
   \<and> (lower lang \<in> set (map fst supported_languages) \<longrightarrow>
       fst (run_code_try env w (lower lang) src stdin) = Inl e \<longrightarrow>
       fst (run_code env w lang src stdin) =
         Inr [(''success'', PBool False),
              (''output'', PStr []),
              (''error'', PStr (''Execution error: '' @ exn_str e)),
              (''execution_time'', PFloat (round3 (time_end env - time_start env))),
              (''memory_usage'', PInt 0),
              (''language'', PStr (lower lang))])
   \<and> (fst (execute_with_limits_try env w cmd stdin cwd) = Inl (PyException m) \<longrightarrow>
       fst (execute_with_limits env w cmd stdin cwd) =
         [(''success'', PBool False),
          (''stdout'', PStr []),
          (''stderr'', PStr (''Execution failed: '' @ m)),
          (''return_code'', PInt (- 1)),
          (''memory_usage'', PInt 0)])"
proof (intro conjI impI)
  show "\<exists>r. fst (run_code env w lang src stdin) = Inr r" by (rule run_code_returns)
next
  assume "lower lang \<in> set (map fst supported_languages)"
    and "fst (run_code_try env w (lower lang) src stdin) = Inl e"
  then show "fst (run_code env w lang src stdin) =
         Inr [(''success'', PBool False),
              (''output'', PStr []),
              (''error'', PStr (''Execution error: '' @ exn_str e)),
              (''execution_time'', PFloat (round3 (time_end env - time_start env))),
              (''memory_usage'', PInt 0),
              (''language'', PStr (lower lang))]"
    by (cases "run_code_try env w (lower lang) src stdin") (simp add: run_code_def Let_def)
next
  assume "fst (execute_with_limits_try env w cmd stdin cwd) = Inl (PyException m)"
  then show "fst (execute_with_limits env w cmd stdin cwd) =
         [(''success'', PBool False),
          (''stdout'', PStr []),
          (''stderr'', PStr (''Execution failed: '' @ m)),
          (''return_code'', PInt (- 1)),
          (''memory_usage'', PInt 0)]"
    by (cases "execute_with_limits_try env w cmd stdin cwd") (simp add: execute_with_limits_def)
qed

text \<open>
  C5, at a concrete input: the temporary directory cannot be created; and the exception
  that \<open>Popen\<close> raises inside \<open>_execute_with_limits\<close>.
\<close>

theorem run_code_never_raises_witness:
  "fst (run_code (sample_env\<lparr>mkdtemp := (\<lambda>w. Inl (PyException ''No space left on device''))\<rparr>)
          empty_world ''python'' ''print(1)'' None) =
     Inr [(''success'', PBool False),
          (''output'', PStr []),
          (''error'', PStr ''Execution error: No space left on device''),
          (''execution_time'', PFloat 1),
          (''memory_usage'', PInt 0),
          (''language'', PStr ''python'')]
   \<and> fst (execute_with_limits sample_env empty_world [''python'', ''/tmp/tmpk3x/code.py''] None
          ''/tmp/tmpk3x'') =
         [(''success'', PBool False),
          (''stdout'', PStr []),
          (''stderr'', PStr (''Execution failed: Popen.__init__() got an unexpected keyword argument 'timeout'' @ [CHR 0x27])),
          (''return_code'', PInt (- 1)),
          (''memory_usage'', PInt 0)]"
proof -
  let ?env = "sample_env\<lparr>mkdtemp := (\<lambda>w. Inl (PyException ''No space left on device''))\<rparr>"
  have low: "lower ''python'' = ''python''" by code_simp
  have h1: "lower ''python'' \<in> set (map fst supported_languages)" by code_simp
  have h2: "fst (run_code_try ?env empty_world (lower ''python'') ''print(1)'' None)
      = Inl (PyException ''No space left on device'')" by code_simp
  have rd: "round3 (time_end sample_env - time_start sample_env) = 1" by code_simp
  have h3: "fst (execute_with_limits_try sample_env empty_world
        [''python'', ''/tmp/tmpk3x/code.py''] None ''/tmp/tmpk3x'')
      = Inl (PyException (''Popen.__init__() got an unexpected keyword argument 'timeout''
                          @ [CHR 0x27]))"
    by code_simp
  have a: "fst (run_code ?env empty_world ''python'' ''print(1)'' None) =
     Inr [(''success'', PBool False),
          (''output'', PStr []),
          (''error'', PStr ''Execution error: No space left on device''),
          (''execution_time'', PFloat 1),
          (''memory_usage'', PInt 0),
          (''language'', PStr ''python'')]"
    using run_code_never_raises [of ?env empty_world "''python''" "''print(1)''" None
        "PyException ''No space left on device''"] h1 h2
    by (simp add: low rd)
  have b: "fst (execute_with_limits sample_env empty_world
        [''python'', ''/tmp/tmpk3x/code.py''] None ''/tmp/tmpk3x'') =
         [(''success'', PBool False),
          (''stdout'', PStr []),
          (''stderr'', PStr (''Execution failed: Popen.__init__() got an unexpected keyword argument 'timeout'' @ [CHR 0x27])),
          (''return_code'', PInt (- 1)),
          (''memory_usage'', PInt 0)]"
    using run_code_never_raises [of sample_env empty_world "''python''" "''print(1)''" None _
        "[''python'', ''/tmp/tmpk3x/code.py'']" "''/tmp/tmpk3x''"
        "''Popen.__init__() got an unexpected keyword argument 'timeout'' @ [CHR 0x27]"] h3
    by simp
  show ?thesis using a b by simp
qed

text \<open>
  C5 as stated fails where the temporary directory cannot be created: the returned dict
  has no key \<open>classification\<close> and no value "internal_error".
\<close>

theorem run_code_never_raises_counterexample:
  "map_of (projr (fst (run_code
          (sample_env\<lparr>mkdtemp := (\<lambda>w. Inl (PyException ''No space left on device''))\<rparr>)
          empty_world ''python'' ''print(1)'' None))) ''classification'' = None
   \<and> PStr ''internal_error'' \<notin> snd ` set (projr (fst (run_code
          (sample_env\<lparr>mkdtemp := (\<lambda>w. Inl (PyException ''No space left on device''))\<rparr>)
          empty_world ''python'' ''print(1)'' None)))"
  by code_simp

subsection \<open>Output caps and the error field\<close>









subsection \<open>The temporary directory of \<open>run_code\<close>\<close>

lemma inside_join: "inside env d (path_join env d f)"
  by (simp add: inside_def path_join_def)

lemma run_code_with_world:
  "snd (run_code_with env w lang src stdin d) = w
   \<or> (\<exists>f. snd (run_code_with env w lang src stdin d) = add_files [path_join env d f] w)"
  by (auto simp: run_code_with_def execute_with_limits_fails Let_def
      split: sum.splits option.splits prod.splits)

lemma run_code_try_world:
  "mkdtemp env w = Inr d \<Longrightarrow>
     snd (run_code_try env w lang src stdin) = w\<lparr>files := {p \<in> files w. \<not> inside env d p}\<rparr>"
  using run_code_with_world [of env "add_files [d] w" lang src stdin d]
  by (auto simp: run_code_try_def cleanup_def add_files_def inside_join split: prod.splits
       intro!: world.equality) (auto simp: inside_def)

text \<open>
  \<open>run_code\<close> removes what it created: on every path through it, the directory that
  \<open>TemporaryDirectory\<close> made and everything below it are gone when it returns.
\<close>

lemma run_code_removes_temporary_directory:
  "lower lang \<in> set (map fst supported_languages) \<Longrightarrow> mkdtemp env w = Inr d \<Longrightarrow>
     snd (run_code env w lang src stdin) = w\<lparr>files := {p \<in> files w. \<not> inside env d p}\<rparr>"
  using run_code_try_world [of env w d "lower lang" src stdin]
  by (auto simp: run_code_def Let_def split: prod.splits sum.splits)

lemma run_code_leaves_nothing:
  "files (snd (run_code env w lang src stdin)) \<subseteq> files w
   \<and> spawned (snd (run_code env w lang src stdin)) = spawned w"
proof (cases "lower lang \<in> set (map fst supported_languages)")
  case False
  then show ?thesis by (simp add: run_code_def Let_def)
next
  case True
  show ?thesis
  proof (cases "mkdtemp env w")
    case (Inl e)
    with True show ?thesis by (simp add: run_code_def run_code_try_def Let_def)
  next
    case (Inr d)
    from run_code_removes_temporary_directory [OF True Inr] show ?thesis by auto
  qed
qed

section \<open>Properties of the execute endpoint\<close>

lemma Popen_files: "Popen env w kws argv cwd = Inr w1 \<Longrightarrow> files w1 = files w"
  by (auto simp: Popen_def split: option.splits)

lemma communicate_files: "files w \<subseteq> files (snd (communicate env w argv inp cwd t))"
  by (auto simp: communicate_def add_files_def split: child_outcome.splits)

lemma subprocess_run_files: "files w \<subseteq> files (snd (subprocess_run env w argv inp t cwd))"
proof (cases "Popen env w ([''text'', ''stdout'', ''stderr'']
             @ (if inp \<noteq> None then [''stdin''] else [])
             @ (if cwd \<noteq> None then [''cwd''] else [])) argv cwd")
  case (Inl e)
  then show ?thesis by (simp add: subprocess_run_def)
next
  case (Inr w1)
  then have "files w1 = files w" by (rule Popen_files)
  then show ?thesis
    using Inr communicate_files [of w1 env argv inp cwd t] by (simp add: subprocess_run_def)
qed

lemma subprocess_run_spawned:
  "subprocess_run env w argv inp t cwd = (Inr res, w1) \<Longrightarrow> spawned w1 = spawned w @ [argv]"
  by (auto simp: subprocess_run_def Popen_def communicate_def add_files_def
      split: sum.splits option.splits child_outcome.splits)

lemma run_step_files: "files w \<subseteq> files (snd (run_step env w request argv cwd))"
  using subprocess_run_files [of w env argv "input_data request" "timeout request" cwd]
  by (auto simp: run_step_def split: sum.splits prod.splits)

lemma compile_and_run_files:
  "files w \<subseteq> files (snd (compile_and_run env w request cargv rargv))"
proof -
  obtain r w1 where c: "subprocess_run env w cargv None (timeout request) None = (r, w1)"
    by (cases "subprocess_run env w cargv None (timeout request) None")
  then have "files w \<subseteq> files w1"
    using subprocess_run_files [of w env cargv None "timeout request" None] by simp
  moreover have "files w1 \<subseteq> files (snd (run_step env w1 request rargv None))"
    by (rule run_step_files)
  ultimately show ?thesis using c
    by (auto simp: compile_and_run_def split: sum.splits prod.splits)
qed

lemma write_file_files: "files w \<subseteq> files (snd (write_file env w p s))"
  by (auto simp: write_file_def add_files_def split: option.splits)

lemma run_csharp_files: "files w \<subseteq> files (snd (run_csharp env w request src))"
proof -
  let ?d = "''/tmp/csharp_project_'' @ take 8 (uuid4_hex env)"
  let ?w0 = "add_files [?d] w"
  obtain r1 w1
    where a: "write_file env ?w0 (path_join env ?d ''Program.csproj'') csproj_text = (r1, w1)"
    by (cases "write_file env ?w0 (path_join env ?d ''Program.csproj'') csproj_text")
  obtain r2 w2 where b: "write_file env w1 (path_join env ?d ''Program.cs'') src = (r2, w2)"
    by (cases "write_file env w1 (path_join env ?d ''Program.cs'') src")
  have 0: "files w \<subseteq> files ?w0" by (auto simp: add_files_def)
  have 1: "files ?w0 \<subseteq> files w1"
    using write_file_files [of ?w0 env "path_join env ?d ''Program.csproj''" csproj_text] a
    by simp
  have 2: "files w1 \<subseteq> files w2"
    using write_file_files [of w1 env "path_join env ?d ''Program.cs''" src] b by simp
  have 3: "files w2 \<subseteq> files (snd (run_step env w2 request [''dotnet'', ''run''] (Some ?d)))"
    by (rule run_step_files)
  show ?thesis using a b 0 1 2 3
    by (auto simp: run_csharp_def Let_def split: option.splits)
qed

lemma execute_try_files:
  "files w \<subseteq> files (snd (execute_try env w request li p src))"
  by (simp add: execute_try_def Let_def compile_and_run_files run_csharp_files run_step_files)

text \<open>
  C3, as amended. For a request in cpp, c, rust or java whose temporary file was written
  and whose compiler run returned with a code other than 0, \<open>execute_code\<close> returns a
  response with an empty output, the error "Compilation error:" followed on a new line by
  the compiler's stderr, and the compiler's return code as exit code; the compiler is the
  only process it has started, so the run step is not executed. The response has no
  success flag and no classification other than that error text.
\<close>

theorem execute_code_compile_error:
  assumes lang: "language request \<in> set [''cpp'', ''c'', ''rust'', ''java'']"
    and info: "map_of languages (language request) = Some lang_info"
    and tmp: "mkstemp env w (extension lang_info) (gettempdir env) = Inr path"
    and wr: "write_text env (add_files [path] w) path (clean_markdown env (code request)) = None"
    and comp: "subprocess_run env (add_files [path] w)
                 (if language request = ''java'' then [''javac'', path]
                  else [command lang_info] @ args lang_info @ [path])
                 None (timeout request) None = (Inr (out, err, rc), w1)"
    and rc: "rc \<noteq> 0"
  shows "execute_code env w request =
           (Inr (make_response env [] (Some (''Compilation error:\<newline>'' @ err)) rc), w1)
         \<and> spawned w1 = spawned w @ [if language request = ''java'' then [''javac'', path]
                                       else [command lang_info] @ args lang_info @ [path]]"
proof -
  have sp: "spawned w1 = spawned (add_files [path] w)
              @ [if language request = ''java'' then [''javac'', path]
                 else [command lang_info] @ args lang_info @ [path]]"
    using comp by (rule subprocess_run_spawned)
  have tr: "execute_try env (add_files [path] w) request lang_info path
              (clean_markdown env (code request))
            = (Inr (make_response env [] (Some (''Compilation error:\<newline>'' @ err)) rc), w1)"
  proof (cases "language request = ''java''")
    case True
    with comp rc show ?thesis
      by (simp add: execute_try_def compile_and_run_def Let_def)
  next
    case False
    with lang comp rc show ?thesis
      by (simp add: execute_try_def compile_and_run_def)
  qed
  show ?thesis using info tmp wr tr sp
    by (simp add: execute_code_def Let_def add_files_def)
qed

text \<open>
  C3, at a concrete input: a C++ text on which the compiler exits with code 1 and
  "boom" on stderr. Only g++ has been started.
\<close>

theorem execute_code_compile_error_witness:
  "execute_code (sample_env\<lparr>child := (\<lambda>w argv inp cwd t. Exits [] ''boom'' 1 [])\<rparr>) empty_world
      \<lparr>code = ''int main('', language = ''cpp'', input_data = None, timeout = Some 30,
       memory_limit = Some 100\<rparr>
    = (Inr \<lparr>output = [], error = Some ''Compilation error:\<newline>boom'',
            execution_time = Some 1, memory_usage = Some 1, cpu_usage = Some 1,
            exit_code = Some 1\<rparr>,
       \<lparr>files = {''/tmp/tmpq7z.cpp''},
        spawned = [[''g++'', ''-o'', ''program'', ''-std=c++17'', ''/tmp/tmpq7z.cpp'']]\<rparr>)"
proof -
  let ?env = "sample_env\<lparr>child := (\<lambda>w argv inp cwd t. Exits [] ''boom'' 1 [])\<rparr>"
  let ?req = "\<lparr>code = ''int main('', language = ''cpp'', input_data = None, timeout = Some 30,
       memory_limit = Some 100\<rparr>"
  let ?li = "\<lparr>name = ''C++'', extension = ''.cpp'', command = ''g++'',
                args = [''-o'', ''program'', ''-std=c++17'']\<rparr>"
  let ?w1 = "\<lparr>files = {''/tmp/tmpq7z.cpp''},
        spawned = [[''g++'', ''-o'', ''program'', ''-std=c++17'', ''/tmp/tmpq7z.cpp'']]\<rparr>"
  have h1: "language ?req \<in> set [''cpp'', ''c'', ''rust'', ''java'']" by simp
  have h2: "map_of languages (language ?req) = Some ?li" by code_simp
  have h3: "mkstemp ?env empty_world (extension ?li) (gettempdir ?env) = Inr ''/tmp/tmpq7z.cpp''"
    by code_simp
  have h4: "write_text ?env (add_files [''/tmp/tmpq7z.cpp''] empty_world) ''/tmp/tmpq7z.cpp''
      (clean_markdown ?env (code ?req)) = None" by code_simp
  have h5: "subprocess_run ?env (add_files [''/tmp/tmpq7z.cpp''] empty_world)
                 (if language ?req = ''java'' then [''javac'', ''/tmp/tmpq7z.cpp'']
                  else [command ?li] @ args ?li @ [''/tmp/tmpq7z.cpp''])
                 None (timeout ?req) None = (Inr ([], ''boom'', 1), ?w1)" by code_simp
  have h6: "(1::int) \<noteq> 0" by simp
  have mr: "make_response ?env [] (Some (''Compilation error:\<newline>'' @ ''boom'')) 1
     = \<lparr>output = [], error = Some ''Compilation error:\<newline>boom'',
            execution_time = Some 1, memory_usage = Some 1, cpu_usage = Some 1,
            exit_code = Some 1\<rparr>" by code_simp
  from execute_code_compile_error [OF h1 h2 h3 h4 h5 h6] show ?thesis unfolding mr by simp
qed

text \<open>
  C3 as stated fails at the same input: the error of the response is the message with the
  compiler's stderr, not the classification "compile_error", and the output is empty.
\<close>

theorem execute_code_compile_error_counterexample:
  "error (projr (fst (execute_code
      (sample_env\<lparr>child := (\<lambda>w argv inp cwd t. Exits [] ''boom'' 1 [])\<rparr>) empty_world
      \<lparr>code = ''int main('', language = ''cpp'', input_data = None, timeout = Some 30,
       memory_limit = Some 100\<rparr>))) = Some ''Compilation error:\<newline>boom''
   \<and> error (projr (fst (execute_code
      (sample_env\<lparr>child := (\<lambda>w argv inp cwd t. Exits [] ''boom'' 1 [])\<rparr>) empty_world
      \<lparr>code = ''int main('', language = ''cpp'', input_data = None, timeout = Some 30,
       memory_limit = Some 100\<rparr>))) \<noteq> Some ''compile_error''
   \<and> output (projr (fst (execute_code
      (sample_env\<lparr>child := (\<lambda>w argv inp cwd t. Exits [] ''boom'' 1 [])\<rparr>) empty_world
      \<lparr>code = ''int main('', language = ''cpp'', input_data = None, timeout = Some 30,
       memory_limit = Some 100\<rparr>))) = []"
  by code_simp

text \<open>
  C6. The claim does not hold of \<open>execute_code\<close>: once \<open>NamedTemporaryFile\<close> has
  created the file for a known language, the file is still on disk when the call returns,
  whatever happens in between (success, compile error, runtime error, timeout, exception).
  \<open>run_code\<close>, by contrast, removes its directory on every path
  (\<open>run_code_removes_temporary_directory\<close>, \<open>run_code_leaves_nothing\<close>).
\<close>

theorem execute_code_leaves_temp_file:
  assumes "map_of languages (language request) = Some lang_info"
    and "mkstemp env w (extension lang_info) (gettempdir env) = Inr path"
  shows "path \<in> files (snd (execute_code env w request))"
proof -
  let ?w1 = "add_files [path] w"
  have "path \<in> files ?w1" by (simp add: add_files_def)
  moreover have "files ?w1 \<subseteq> files (snd (execute_try env ?w1 request lang_info path
      (clean_markdown env (code request))))"
    by (rule execute_try_files)
  ultimately show ?thesis using assms
    by (auto simp: execute_code_def Let_def split: option.splits sum.splits prod.splits)
qed

text \<open>
  C6, at a concrete input: a Python request that runs to success on a machine with an
  empty disk leaves its source file behind.
\<close>

theorem execute_code_leaves_temp_file_witness:
  "''/tmp/tmpq7z.py'' \<notin> files empty_world
   \<and> ''/tmp/tmpq7z.py'' \<in> files (snd (execute_code sample_env empty_world
       \<lparr>code = ''print(1)'', language = ''python'', input_data = None, timeout = Some 30,
        memory_limit = Some 100\<rparr>))
   \<and> execute_code sample_env empty_world
       \<lparr>code = ''print(1)'', language = ''python'', input_data = None, timeout = Some 30,
        memory_limit = Some 100\<rparr>
     = (Inr \<lparr>output = ''out'', error = None, execution_time = Some 1, memory_usage = Some 1,
             cpu_usage = Some 1, exit_code = Some 0\<rparr>,
        \<lparr>files = {''/tmp/tmpq7z.py''}, spawned = [[''python'', ''/tmp/tmpq7z.py'']]\<rparr>)"
proof -
  let ?req = "\<lparr>code = ''print(1)'', language = ''python'', input_data = None,
        timeout = Some 30, memory_limit = Some 100\<rparr>"
  let ?li = "\<lparr>name = ''Python'', extension = ''.py'', command = ''python'', args = []\<rparr>"
  have h1: "map_of languages (language ?req) = Some ?li" by code_simp
  have h2: "mkstemp sample_env empty_world (extension ?li) (gettempdir sample_env)
      = Inr ''/tmp/tmpq7z.py''" by code_simp
  have h3: "''/tmp/tmpq7z.py'' \<notin> files empty_world" by code_simp
  have h4: "execute_code sample_env empty_world ?req
     = (Inr \<lparr>output = ''out'', error = None, execution_time = Some 1, memory_usage = Some 1,
             cpu_usage = Some 1, exit_code = Some 0\<rparr>,
        \<lparr>files = {''/tmp/tmpq7z.py''}, spawned = [[''python'', ''/tmp/tmpq7z.py'']]\<rparr>)"
    by code_simp
  show ?thesis
    by (intro conjI) (rule h3, rule execute_code_leaves_temp_file [OF h1 h2], rule h4)
qed

end
